theory Spec2Isabelle
  imports Main
begin

section \<open>Surface input curve quantity (surface\_input\_curve\_quantity.cpp)\<close>

text \<open>
  A shallow embedding of \<^verbatim>\<open>SurfaceInputCurveQuantity\<close>: the serialisation of the
  curve (\<^verbatim>\<open>writeToFile\<close>), the per-frame editing callback
  (\<^verbatim>\<open>userEditCallback\<close>) and the modal editing loop (\<^verbatim>\<open>userEdit\<close>).
  Rendering (\<^verbatim>\<open>draw\<close>, \<^verbatim>\<open>fillBuffers\<close>, \<^verbatim>\<open>drawUI\<close>) is not modelled.
\<close>

subsection \<open>Curve segments\<close>

text \<open>
  Modelled from the spec: the struct \<^verbatim>\<open>CurveSegment\<close> is declared in the geometry
  library's headers, not in the source file. Its fields are those of the
  specification's data model (section 3): the face that owns the segment and the
  two end points. The source reads \<^verbatim>\<open>startPosition\<close> and \<^verbatim>\<open>endPosition\<close>, both of
  type \<^verbatim>\<open>Vector3\<close>. The vector type \<open>'v\<close> and the face handle type \<open>'f\<close> are
  parameters.
\<close>

record ('f, 'v) CurveSegment =
  face :: 'f
  startPosition :: 'v
  endPosition :: 'v

subsection \<open>Output streams and decimal numbers\<close>

text \<open>
  A \<^verbatim>\<open>std::ofstream\<close> is the string of characters written so far; \<^verbatim>\<open>out << s\<close>
  appends \<open>s\<close> and \<^verbatim>\<open>out << endl\<close> appends a newline character.
\<close>

definition newline :: char where
  "newline = CHR 0x0A"

definition endl :: "string \<Rightarrow> string" where
  "endl out = out @ [newline]"

definition digit_char :: "nat \<Rightarrow> char" where
  "digit_char d = ''0123456789'' ! d"

text \<open>
  \<^verbatim>\<open>out << n\<close> for a \<^verbatim>\<open>size_t\<close>: the decimal digits of \<open>n\<close>, most significant first.
  The values printed are indices into and sizes of a \<^verbatim>\<open>std::vector\<close>, which are
  bounded by \<^verbatim>\<open>max_size()\<close>, so \<^verbatim>\<open>i + 1\<close> and \<^verbatim>\<open>size() + 1\<close> never wrap and the
  numbers are modelled as \<open>nat\<close>.
\<close>

fun show_nat :: "nat \<Rightarrow> string" where
  "show_nat n =
     (if n < 10 then [digit_char n] else show_nat (n div 10) @ [digit_char (n mod 10)])"

declare show_nat.simps [simp del]

subsection \<open>writeToFile\<close>

text \<open>
  \<^verbatim>\<open>segments.back()\<close> on an empty vector is undefined behaviour; the model makes it
  an error value.
\<close>

datatype write_error = BackOfEmptyVector

text \<open>
  The loop of the closed branch: \<open>n\<close> is \<^verbatim>\<open>segments.size()\<close>, \<open>i\<close> the counter,
  \<open>out\<close> the file written so far and \<open>segInds\<close> the index pairs recorded so far.
\<close>

fun writeToFile_closed_loop ::
  "('v \<Rightarrow> string) \<Rightarrow> nat \<Rightarrow> ('f, 'v, 'z) CurveSegment_scheme list \<Rightarrow> nat \<Rightarrow> string \<Rightarrow>
   (nat \<times> nat) list \<Rightarrow> string \<times> (nat \<times> nat) list" where
  "writeToFile_closed_loop showV n [] i out segInds = (out, segInds)"
| "writeToFile_closed_loop showV n (s # ss) i out segInds =
     writeToFile_closed_loop showV n ss (i + 1)
       (endl (out @ showV (startPosition s))) (segInds @ [(i, (i + 1) mod n)])"

text \<open>The loop of the open branch.\<close>

fun writeToFile_open_loop ::
  "('v \<Rightarrow> string) \<Rightarrow> ('f, 'v, 'z) CurveSegment_scheme list \<Rightarrow> nat \<Rightarrow> string \<Rightarrow>
   (nat \<times> nat) list \<Rightarrow> string \<times> (nat \<times> nat) list" where
  "writeToFile_open_loop showV [] i out segInds = (out, segInds)"
| "writeToFile_open_loop showV (s # ss) i out segInds =
     writeToFile_open_loop showV ss (i + 1)
       (endl (out @ showV (startPosition s))) (segInds @ [(i, i + 1)])"

text \<open>The final loop, which writes one line \<^verbatim>\<open>first,second\<close> per recorded pair.\<close>

fun writeToFile_indices :: "(nat \<times> nat) list \<Rightarrow> string \<Rightarrow> string" where
  "writeToFile_indices [] out = out"
| "writeToFile_indices (s # ss) out =
     writeToFile_indices ss (endl (out @ show_nat (fst s) @ '','' @ show_nat (snd s)))"

text \<open>
  \<^verbatim>\<open>writeToFile(filename)\<close>. The parameters that stand for the object's state and its
  environment:
  \<^item> \<open>showV\<close>: the text \<^verbatim>\<open>operator<<\<close> prints for a \<^verbatim>\<open>Vector3\<close>;
  \<^item> \<open>name\<close>: the quantity's name;
  \<^item> \<open>prompted\<close>: what \<^verbatim>\<open>promptForFilename()\<close> returns when it is called;
  \<^item> \<open>segs\<close>: the value of \<^verbatim>\<open>curve.getCurveSegments()\<close>;
  \<^item> \<open>closed\<close>: the value of \<^verbatim>\<open>curve.isClosed()\<close>.

  The file is assumed to open. The result is \<open>Inl BackOfEmptyVector\<close> when the open branch calls \<^verbatim>\<open>back()\<close> on an
  empty vector, and otherwise \<open>Inr (console, file)\<close>: the text sent to \<^verbatim>\<open>cout\<close>, and
  the file written as \<open>Some (path, contents)\<close>, or \<open>None\<close> when the function returned
  before opening a file.
\<close>

definition writeToFile ::
  "('v \<Rightarrow> string) \<Rightarrow> string \<Rightarrow> string \<Rightarrow> string \<Rightarrow> ('f, 'v, 'z) CurveSegment_scheme list \<Rightarrow> bool \<Rightarrow>
   write_error + string \<times> (string \<times> string) option" where
  "writeToFile showV name prompted filename segs closed =
     (let filename = (if filename = [] then prompted else filename) in
      if filename = [] then Inr ([], None)
      else
        let console = endl (''Writing curve '' @ name @ '' to file '' @ filename);
            written =
              (if closed then
                 Inr (writeToFile_closed_loop showV (length segs) segs 0
                        (endl (''# points: '' @ show_nat (length segs))) [])
               else
                 (case writeToFile_open_loop showV segs 0
                         (endl (''# points: '' @ show_nat (length segs + 1))) [] of
                    (out, segInds) \<Rightarrow>
                      (if segs = [] then Inl BackOfEmptyVector
                       else Inr (endl (out @ showV (endPosition (last segs))), segInds))))
        in case written of
             Inl e \<Rightarrow> Inl e
           | Inr (out, segInds) \<Rightarrow>
               Inr (console,
                    Some (filename,
                          writeToFile_indices segInds
                            (endl (out @ ''# lines: '' @ show_nat (length segInds))))))"

text \<open>
  The text of a file given by its lines: every line is followed by the newline
  that \<^verbatim>\<open>endl\<close> writes. This is how the specification describes the file format.
\<close>

definition file_lines :: "string list \<Rightarrow> string" where
  "file_lines ls = concat (map (\<lambda>l. l @ [newline]) ls)"


subsection \<open>The editing callback\<close>

text \<open>
  The curve is a \<^verbatim>\<open>MeshEmbeddedCurve\<close> of the geometry library, whose member
  functions are not part of this file. The callback is modelled over any curve type
  \<open>'c\<close> and any implementation of the five member functions it calls. Only
  \<^verbatim>\<open>closeCurve\<close> is called inside a \<^verbatim>\<open>try\<close> block: it returns \<open>Inl e\<close> when it
  throws the \<^verbatim>\<open>std::runtime_error\<close> \<open>e\<close>, and a call that throws is taken to leave
  the curve as it was. The value \<^verbatim>\<open>tryExtendBack\<close> returns, if any, is discarded by
  the caller.
\<close>

record ('c, 'f, 'b, 'e) curve_ops =
  tryExtendBack :: "'f \<Rightarrow> 'b \<Rightarrow> 'c \<Rightarrow> 'c"
  removeLastEndpoint :: "'c \<Rightarrow> 'c"
  isClosed :: "'c \<Rightarrow> bool"
  closeCurve :: "'c \<Rightarrow> 'e + 'c"
  clearCurve :: "'c \<Rightarrow> 'c"

text \<open>
  The part of the program state the functions read and write: the quantity's fields
  \<^verbatim>\<open>enabled\<close>, \<^verbatim>\<open>bufferStale\<close> and \<^verbatim>\<open>curve\<close>, the globals
  \<^verbatim>\<open>pick::alwaysEvaluatePick\<close> and \<^verbatim>\<open>focusedPopupUI\<close> (\<open>True\<close> when the
  \<^verbatim>\<open>std::function\<close> holds a callback), ImGui's current context (\<open>None\<close> is the null
  pointer) and its live contexts, and the messages passed to \<^verbatim>\<open>polyscope::error\<close>.
\<close>

record 'c program_state =
  enabled :: bool
  bufferStale :: bool
  curve :: 'c
  alwaysEvaluatePick :: bool
  focusedPopupUI :: bool
  currentContext :: "nat option"
  liveContexts :: "nat list"
  reportedErrors :: "string list"

text \<open>
  What ImGui and the picking code report in one frame: \<^verbatim>\<open>io.KeyCtrl\<close>,
  \<^verbatim>\<open>io.WantCaptureMouse\<close>, \<^verbatim>\<open>ImGui::IsMouseDown(0)\<close>, the face and coordinates
  \<^verbatim>\<open>getPickedFacePoint\<close> stores (\<open>None\<close> is the null \<^verbatim>\<open>FacePtr()\<close>), and the value
  of each \<^verbatim>\<open>ImGui::Button\<close> call.
\<close>

record ('f, 'b) frame_input =
  keyCtrl :: bool
  wantCaptureMouse :: bool
  mouseDown :: bool
  pickedFace :: "'f option"
  pickedCoord :: 'b
  removeLastButton :: bool
  closeCurveButton :: bool
  clearButton :: bool
  doneButton :: bool

text \<open>\<^verbatim>\<open>polyscope::error(message)\<close>, recorded as the message it is given.\<close>

definition polyscope_error ::
  "string \<Rightarrow> ('c, 'z) program_state_scheme \<Rightarrow> ('c, 'z) program_state_scheme" where
  "polyscope_error message s = s\<lparr>reportedErrors := reportedErrors s @ [message]\<rparr>"

text \<open>The mouse selection block of \<^verbatim>\<open>userEditCallback\<close>.\<close>

definition userEditCallback_pick ::
  "('c, 'f, 'b, 'e) curve_ops \<Rightarrow> ('f, 'b) frame_input \<Rightarrow>
   ('c, 'z) program_state_scheme \<Rightarrow> ('c, 'z) program_state_scheme" where
  "userEditCallback_pick ops io s =
     (if keyCtrl io \<and> \<not> wantCaptureMouse io \<and> mouseDown io then
        (case pickedFace io of
           None \<Rightarrow> s
         | Some fClick \<Rightarrow>
             s\<lparr>curve := tryExtendBack ops fClick (pickedCoord io) (curve s),
               bufferStale := True\<rparr>)
      else s)"

text \<open>The \<^verbatim>\<open>Remove last\<close> button.\<close>

definition userEditCallback_remove ::
  "('c, 'f, 'b, 'e) curve_ops \<Rightarrow> ('f, 'b) frame_input \<Rightarrow>
   ('c, 'z) program_state_scheme \<Rightarrow> ('c, 'z) program_state_scheme" where
  "userEditCallback_remove ops io s =
     (if removeLastButton io then
        s\<lparr>curve := removeLastEndpoint ops (curve s), bufferStale := True\<rparr>
      else s)"

text \<open>The \<^verbatim>\<open>Close curve\<close> button.\<close>

definition userEditCallback_close ::
  "('c, 'f, 'b, 'e) curve_ops \<Rightarrow> ('f, 'b) frame_input \<Rightarrow>
   ('c, 'z) program_state_scheme \<Rightarrow> ('c, 'z) program_state_scheme" where
  "userEditCallback_close ops io s =
     (if closeCurveButton io then
        (if isClosed ops (curve s) then polyscope_error ''Curve is already closed.'' s
         else
           (case closeCurve ops (curve s) of
              Inr c \<Rightarrow> s\<lparr>curve := c, bufferStale := True\<rparr>
            | Inl e \<Rightarrow>
                polyscope_error ''Error closing curve. Are both endpoints in same face?'' s))
      else s)"

text \<open>The \<^verbatim>\<open>Clear\<close> button.\<close>

definition userEditCallback_clear ::
  "('c, 'f, 'b, 'e) curve_ops \<Rightarrow> ('f, 'b) frame_input \<Rightarrow>
   ('c, 'z) program_state_scheme \<Rightarrow> ('c, 'z) program_state_scheme" where
  "userEditCallback_clear ops io s =
     (if clearButton io then
        s\<lparr>curve := clearCurve ops (curve s), bufferStale := True\<rparr>
      else s)"

text \<open>The \<^verbatim>\<open>Done\<close> button.\<close>

definition userEditCallback_done ::
  "('f, 'b) frame_input \<Rightarrow> ('c, 'z) program_state_scheme \<Rightarrow> ('c, 'z) program_state_scheme" where
  "userEditCallback_done io s = (if doneButton io then s\<lparr>focusedPopupUI := False\<rparr> else s)"

text \<open>
  \<^verbatim>\<open>userEditCallback\<close>: the five blocks in the order of the source. The calls that
  only lay out the window (\<^verbatim>\<open>Begin\<close>, \<^verbatim>\<open>TextWrapped\<close>, \<^verbatim>\<open>PushStyleColor\<close>, ...) do
  not touch the modelled state.
\<close>

definition userEditCallback ::
  "('c, 'f, 'b, 'e) curve_ops \<Rightarrow> ('f, 'b) frame_input \<Rightarrow>
   ('c, 'z) program_state_scheme \<Rightarrow> ('c, 'z) program_state_scheme" where
  "userEditCallback ops io s =
     userEditCallback_done io
       (userEditCallback_clear ops io
          (userEditCallback_close ops io
             (userEditCallback_remove ops io
                (userEditCallback_pick ops io s))))"

subsection \<open>The modal editing loop\<close>

text \<open>
  The context functions of the ImGui library, as it documents them: \<^verbatim>\<open>CreateContext\<close>
  allocates a context that is not live yet and makes it current when no context is
  current; \<^verbatim>\<open>SetCurrentContext\<close> stores its argument; \<^verbatim>\<open>DestroyContext\<close> frees a
  context and resets the current context to null when it is the one destroyed.
\<close>

definition freshContext :: "nat list \<Rightarrow> nat" where
  "freshContext live = Suc (fold max live 0)"

definition ImGui_CreateContext ::
  "('c, 'z) program_state_scheme \<Rightarrow> nat \<times> ('c, 'z) program_state_scheme" where
  "ImGui_CreateContext s =
     (let ctx = freshContext (liveContexts s);
          s' = s\<lparr>liveContexts := ctx # liveContexts s\<rparr>
      in (ctx, if currentContext s' = None then s'\<lparr>currentContext := Some ctx\<rparr> else s'))"

definition ImGui_SetCurrentContext ::
  "nat option \<Rightarrow> ('c, 'z) program_state_scheme \<Rightarrow> ('c, 'z) program_state_scheme" where
  "ImGui_SetCurrentContext ctx s = s\<lparr>currentContext := ctx\<rparr>"

definition ImGui_DestroyContext ::
  "nat \<Rightarrow> ('c, 'z) program_state_scheme \<Rightarrow> ('c, 'z) program_state_scheme" where
  "ImGui_DestroyContext ctx s =
     (let s' = (if currentContext s = Some ctx then s\<lparr>currentContext := None\<rparr> else s)
      in s'\<lparr>liveContexts := removeAll ctx (liveContexts s')\<rparr>)"

text \<open>
  \<^verbatim>\<open>while (focusedPopupUI) mainLoopIteration();\<close> The loop runs until an iteration
  clears \<^verbatim>\<open>focusedPopupUI\<close>, which may never happen: the result is \<open>None\<close> then.
  \<^verbatim>\<open>mainLoopIteration\<close> is defined elsewhere in the repository and is a parameter: any
  function on the program state.
\<close>

partial_function (option) userEdit_loop ::
  "(('c, 'z) program_state_scheme \<Rightarrow> ('c, 'z) program_state_scheme) \<Rightarrow>
   ('c, 'z) program_state_scheme \<Rightarrow> ('c, 'z) program_state_scheme option" where
  "userEdit_loop mainLoopIteration s =
     (if focusedPopupUI s then userEdit_loop mainLoopIteration (mainLoopIteration s)
      else Some s)"

text \<open>
  \<^verbatim>\<open>userEdit\<close>. \<^verbatim>\<open>initializeImGUIContext\<close> is defined elsewhere in the repository
  and is a parameter as well. \<^verbatim>\<open>getGlobalFontAtlas()\<close> only provides the argument of
  \<^verbatim>\<open>CreateContext\<close>, which the model of the context functions does not need.
\<close>

definition userEdit ::
  "(('c, 'z) program_state_scheme \<Rightarrow> ('c, 'z) program_state_scheme) \<Rightarrow>
   (('c, 'z) program_state_scheme \<Rightarrow> ('c, 'z) program_state_scheme) \<Rightarrow>
   ('c, 'z) program_state_scheme \<Rightarrow> ('c, 'z) program_state_scheme option" where
  "userEdit initializeImGUIContext mainLoopIteration s =
     (let s1 = s\<lparr>enabled := True\<rparr>;
          oldContext = currentContext s1;
          (newContext, s2) = ImGui_CreateContext s1;
          s3 = ImGui_SetCurrentContext (Some newContext) s2;
          s4 = initializeImGUIContext s3;
          oldAlwaysPick = alwaysEvaluatePick s4;
          s5 = s4\<lparr>alwaysEvaluatePick := True\<rparr>;
          s6 = s5\<lparr>focusedPopupUI := True\<rparr>
      in case userEdit_loop mainLoopIteration s6 of
           None \<Rightarrow> None
         | Some s7 \<Rightarrow>
             Some (ImGui_DestroyContext newContext
                     (ImGui_SetCurrentContext oldContext
                        (s7\<lparr>alwaysEvaluatePick := oldAlwaysPick\<rparr>))))"


subsection \<open>The curve editor, from the specification\<close>

text \<open>
  Modelled from the spec: the class \<^verbatim>\<open>MeshEmbeddedCurve\<close> is not in the source file.
  The specification's data model gives it an ordered sequence of segments (the
  segment store), an explicit boolean that tracks closedness, and the pending
  anchor that the first pick of an empty curve records. \<^verbatim>\<open>closeCurve\<close> asks for the
  face of the curve's first start point, which is the face of that first pick; a
  segment records one face only, so the curve keeps the face of its first start
  point when the anchor turns into the start of the first segment.
\<close>

record ('f, 'v) MeshEmbeddedCurve =
  segmentStore :: "('f, 'v) CurveSegment list"
  closedFlag :: bool
  pendingAnchor :: "('f \<times> 'v) option"
  firstStartFace :: "'f option"

text \<open>
  Modelled from the spec: the states of the editor's state machine (section 4.3).
  A curve is \<open>Closed\<close> when its flag is set, \<open>Empty\<close> when it has neither a
  segment nor a pending anchor, and \<open>Open\<close> otherwise.
\<close>

datatype curve_state = Empty | Open | Closed

definition curve_state_of :: "('f, 'v) MeshEmbeddedCurve \<Rightarrow> curve_state" where
  "curve_state_of c =
     (if closedFlag c then Closed
      else if segmentStore c = [] \<and> pendingAnchor c = None then Empty
      else Open)"

text \<open>Modelled from the spec: the error kinds of section 7.\<close>

datatype edit_error = DisconnectedPick | InvalidClosure | NotFound | TransferUnresolvable

text \<open>
  Modelled from the spec: the store's query \<^verbatim>\<open>isClosed()\<close> (section 4.2) reads the
  explicit boolean.
\<close>

definition spec_isClosed :: "('f, 'v) MeshEmbeddedCurve \<Rightarrow> bool" where
  "spec_isClosed c = closedFlag c"

text \<open>
  Modelled from the spec: the curve's current back endpoint with the face that
  contains it. It is the end of the last segment, in that segment's face, or the
  pending anchor when no segment has been emitted; an empty curve has none.
\<close>

definition spec_backEndpoint :: "('f, 'v) MeshEmbeddedCurve \<Rightarrow> ('f \<times> 'v) option" where
  "spec_backEndpoint c =
     (if segmentStore c = [] then pendingAnchor c
      else Some (face (last (segmentStore c)), endPosition (last (segmentStore c))))"

text \<open>
  Modelled from the spec: appending the segment from the back endpoint \<open>p\<close> to the
  picked point \<open>q\<close>. The specification does not say which face owns a segment
  between two adjacent faces; the model records the picked face \<open>f\<close>, the face of
  the new back endpoint, so the face of the last segment is the face of the
  curve's last end point. An anchor is pending only until the first segment
  exists; the face of the first start point stays as the anchor set it.
\<close>

definition spec_emit ::
  "'f \<Rightarrow> 'v \<Rightarrow> 'v \<Rightarrow> ('f, 'v) MeshEmbeddedCurve \<Rightarrow> ('f, 'v) MeshEmbeddedCurve" where
  "spec_emit f p q c =
     c\<lparr>segmentStore := segmentStore c @ [\<lparr>face = f, startPosition = p, endPosition = q\<rparr>],
       pendingAnchor := None\<rparr>"

text \<open>
  Modelled from the spec: \<^verbatim>\<open>tryExtendBack(candidateFace, candidatePoint)\<close> (section
  4.3). The mesh geometry provider's adjacency query is the relation \<open>adjacent\<close>
  (pairs of faces that share an edge or a vertex); \<open>crossing\<close> holds the tuples
  \<open>(f, p, g, q)\<close> for which the straight segment from \<open>p\<close> in face \<open>f\<close> to \<open>q\<close> in
  face \<open>g\<close> would cross a third face. On a closed curve the call is a no-op that
  fails silently; on an empty curve it records the anchor, whose face is the face
  of the curve's first start point; otherwise it emits one
  segment when the picked face is the back endpoint's face, or is adjacent to it
  with no third face crossed, and fails with \<open>DisconnectedPick\<close> else.
\<close>

definition spec_tryExtendBack ::
  "('f \<times> 'f) set \<Rightarrow> ('f \<times> 'v \<times> 'f \<times> 'v) set \<Rightarrow> 'f \<Rightarrow> 'v \<Rightarrow>
   ('f, 'v) MeshEmbeddedCurve \<Rightarrow> edit_error + ('f, 'v) MeshEmbeddedCurve" where
  "spec_tryExtendBack adjacent crossing candidateFace candidatePoint c =
     (if closedFlag c then Inr c
      else
        (case spec_backEndpoint c of
           None \<Rightarrow>
             Inr (c\<lparr>pendingAnchor := Some (candidateFace, candidatePoint),
                    firstStartFace := Some candidateFace\<rparr>)
         | Some (backFace, backPoint) \<Rightarrow>
             if candidateFace = backFace then
               Inr (spec_emit candidateFace backPoint candidatePoint c)
             else if (backFace, candidateFace) \<in> adjacent
                     \<and> (backFace, backPoint, candidateFace, candidatePoint) \<notin> crossing then
               Inr (spec_emit candidateFace backPoint candidatePoint c)
             else Inl DisconnectedPick))"

text \<open>
  Modelled from the spec: \<^verbatim>\<open>removeLastEndpoint()\<close> (section 4.3) pops the most
  recent segment, or the pending anchor if only one point exists, and is a no-op
  on an empty curve. A curve that loses its closing segment is no longer closed,
  and a curve that becomes empty has no first start point any more.
\<close>

definition spec_removeLastEndpoint ::
  "('f, 'v) MeshEmbeddedCurve \<Rightarrow> ('f, 'v) MeshEmbeddedCurve" where
  "spec_removeLastEndpoint c =
     (if segmentStore c \<noteq> [] then
        c\<lparr>segmentStore := butlast (segmentStore c), closedFlag := False,
          firstStartFace :=
            (if butlast (segmentStore c) = [] then None else firstStartFace c)\<rparr>
      else if pendingAnchor c \<noteq> None then c\<lparr>pendingAnchor := None, firstStartFace := None\<rparr>
      else c)"

text \<open>
  Modelled from the spec: \<^verbatim>\<open>closeCurve()\<close> (section 4.3) fails with
  \<open>InvalidClosure\<close> if the curve is already closed, has fewer than one full
  segment, or its first start point and last end point are not in a common face:
  the face kept for the first start point is not the face of the last segment,
  which is the face of the last end point. On success it appends the straight
  segment from the last end point to the first start point, in that common face,
  and sets the flag.
\<close>

definition spec_closeCurve ::
  "('f, 'v) MeshEmbeddedCurve \<Rightarrow> edit_error + ('f, 'v) MeshEmbeddedCurve" where
  "spec_closeCurve c =
     (if closedFlag c then Inl InvalidClosure
      else if segmentStore c = [] then Inl InvalidClosure
      else if firstStartFace c \<noteq> Some (face (last (segmentStore c))) then Inl InvalidClosure
      else
        Inr (c\<lparr>segmentStore :=
                 segmentStore c @
                 [\<lparr>face = face (last (segmentStore c)),
                   startPosition = endPosition (last (segmentStore c)),
                   endPosition = startPosition (hd (segmentStore c))\<rparr>],
               closedFlag := True\<rparr>))"

text \<open>
  Modelled from the spec: \<^verbatim>\<open>clearCurve()\<close> (section 4.3) unconditionally resets the
  curve to \<open>Empty\<close>, discarding all segments.
\<close>

definition spec_clearCurve :: "('f, 'v) MeshEmbeddedCurve \<Rightarrow> ('f, 'v) MeshEmbeddedCurve" where
  "spec_clearCurve c =
     c\<lparr>segmentStore := [], closedFlag := False, pendingAnchor := None,
       firstStartFace := None\<rparr>"

text \<open>
  Modelled from the spec: the member functions as \<^verbatim>\<open>userEditCallback\<close> calls them.
  The callback discards the outcome of \<^verbatim>\<open>tryExtendBack\<close>, so a failed call leaves
  the curve as it was.
\<close>

definition spec_ops ::
  "('f \<times> 'f) set \<Rightarrow> ('f \<times> 'v \<times> 'f \<times> 'v) set \<Rightarrow>
   (('f, 'v) MeshEmbeddedCurve, 'f, 'v, edit_error) curve_ops" where
  "spec_ops adjacent crossing =
     \<lparr>tryExtendBack =
        (\<lambda>f p c. case spec_tryExtendBack adjacent crossing f p c of
                    Inl e \<Rightarrow> c
                  | Inr c' \<Rightarrow> c'),
      removeLastEndpoint = spec_removeLastEndpoint,
      isClosed = spec_isClosed,
      closeCurve = spec_closeCurve,
      clearCurve = spec_clearCurve\<rparr>"

text \<open>
  Modelled from the spec: the representation invariant of the editor's states. A
  closed curve has at least one segment, and an anchor is pending only while no
  segment exists.
\<close>

definition curve_wf :: "('f, 'v) MeshEmbeddedCurve \<Rightarrow> bool" where
  "curve_wf c =
     ((closedFlag c \<longrightarrow> segmentStore c \<noteq> [] \<and> pendingAnchor c = None)
      \<and> (pendingAnchor c \<noteq> None \<longrightarrow> segmentStore c = []))"


section \<open>Properties of writeToFile\<close>

lemma file_lines_Nil: "file_lines [] = []"
  by (simp add: file_lines_def)

lemma file_lines_Cons: "file_lines (l # ls) = l @ [newline] @ file_lines ls"
  by (simp add: file_lines_def)

lemma file_lines_append: "file_lines (xs @ ys) = file_lines xs @ file_lines ys"
  by (simp add: file_lines_def)

lemma writeToFile_closed_loop_eq:
  "writeToFile_closed_loop showV n ss i out segInds =
     (out @ file_lines (map (\<lambda>s. showV (startPosition s)) ss),
      segInds @ map (\<lambda>k. (k, (k + 1) mod n)) [i..<i + length ss])"
proof (induction ss arbitrary: i out segInds)
  case Nil
  show ?case by (simp add: file_lines_Nil)
next
  case (Cons s ss)
  have "[i..<i + length (s # ss)] = i # [i + 1..<(i + 1) + length ss]"
    by (subst upt_rec) simp
  then show ?case
    by (simp add: Cons.IH endl_def file_lines_Cons)
qed

lemma writeToFile_open_loop_eq:
  "writeToFile_open_loop showV ss i out segInds =
     (out @ file_lines (map (\<lambda>s. showV (startPosition s)) ss),
      segInds @ map (\<lambda>k. (k, k + 1)) [i..<i + length ss])"
proof (induction ss arbitrary: i out segInds)
  case Nil
  show ?case by (simp add: file_lines_Nil)
next
  case (Cons s ss)
  have "[i..<i + length (s # ss)] = i # [i + 1..<(i + 1) + length ss]"
    by (subst upt_rec) simp
  then show ?case
    by (simp add: Cons.IH endl_def file_lines_Cons)
qed

lemma writeToFile_indices_eq:
  "writeToFile_indices ps out =
     out @ file_lines (map (\<lambda>p. show_nat (fst p) @ '','' @ show_nat (snd p)) ps)"
  by (induction ps arbitrary: out) (simp_all add: endl_def file_lines_def)

text \<open>
  The whole file, when a file name is known and the curve is closed or has a
  segment.
\<close>

lemma writeToFile_written:
  assumes "fname = (if filename = [] then prompted else filename)" and "fname \<noteq> []"
    and "closed \<or> segs \<noteq> []"
  shows "writeToFile showV name prompted filename segs closed =
     Inr (''Writing curve '' @ name @ '' to file '' @ fname @ [newline],
          Some (fname,
            file_lines
              ((''# points: '' @ show_nat (if closed then length segs else length segs + 1))
               # map (\<lambda>s. showV (startPosition s)) segs
               @ (if closed then [] else [showV (endPosition (last segs))]))
            @ file_lines
              ((''# lines: '' @ show_nat (length segs))
               # map (\<lambda>i. show_nat i @ '','' @
                          show_nat (if closed then (i + 1) mod length segs else i + 1))
                   [0..<length segs])))"
  using assms
  by (auto simp: writeToFile_def Let_def writeToFile_closed_loop_eq writeToFile_open_loop_eq
      writeToFile_indices_eq endl_def file_lines_Nil file_lines_Cons file_lines_append comp_def)

text \<open>The two ways of writing no file.\<close>

lemma writeToFile_no_filename:
  "filename = [] \<Longrightarrow> prompted = [] \<Longrightarrow>
   writeToFile showV name prompted filename segs closed = Inr ([], None)"
  by (simp add: writeToFile_def)

lemma writeToFile_empty_open:
  assumes "fname = (if filename = [] then prompted else filename)" and "fname \<noteq> []"
  shows "writeToFile showV name prompted filename [] False = Inl BackOfEmptyVector"
  using assms by (simp add: writeToFile_def Let_def)

text \<open>A file that was written leaves no doubt about its name and the curve.\<close>

lemma writeToFile_written_cases:
  assumes "writeToFile showV name prompted filename segs closed =
             Inr (console, Some (fname, contents))"
  shows "fname = (if filename = [] then prompted else filename) \<and> fname \<noteq> []
         \<and> (closed \<or> segs \<noteq> [])"
proof -
  define resolved where "resolved = (if filename = [] then prompted else filename)"
  have 1: "resolved \<noteq> []"
  proof
    assume "resolved = []"
    then have "filename = []" and "prompted = []"
      by (auto simp: resolved_def split: if_splits)
    then show False using assms by (simp add: writeToFile_no_filename)
  qed
  have 2: "closed \<or> segs \<noteq> []"
  proof (rule ccontr)
    assume "\<not> (closed \<or> segs \<noteq> [])"
    then have "writeToFile showV name prompted filename segs closed = Inl BackOfEmptyVector"
      using writeToFile_empty_open[OF resolved_def 1] by simp
    with assms show False by simp
  qed
  have "fname = resolved"
    using assms writeToFile_written[OF resolved_def 1 2, of showV name] by simp
  with 1 2 show ?thesis by (simp add: resolved_def)
qed

text \<open>
  The same file, with the vertices \<open>pts\<close> of the curve in traversal order and the
  index pairs \<open>pairs\<close> of its segments.
\<close>

lemma writeToFile_written_points:
  assumes "fname = (if filename = [] then prompted else filename)" and "fname \<noteq> []"
    and "closed \<or> segs \<noteq> []"
    and "pts = (if closed then map startPosition segs
                else map startPosition segs @ [endPosition (last segs)])"
    and "n = length segs"
    and "pairs = map (\<lambda>i. (i, if closed then (i + 1) mod n else i + 1)) [0..<n]"
  shows "writeToFile showV name prompted filename segs closed =
     Inr (''Writing curve '' @ name @ '' to file '' @ fname @ [newline],
          Some (fname,
            file_lines ((''# points: '' @ show_nat (length pts)) # map showV pts)
            @ file_lines ((''# lines: '' @ show_nat n)
                          # map (\<lambda>p. show_nat (fst p) @ '','' @ show_nat (snd p)) pairs)))"
  using assms(4-6) writeToFile_written[OF assms(1-3), of showV name]
  by (simp add: comp_def)

lemma writeToFile_contents:
  assumes w: "writeToFile showV name prompted filename segs closed =
             Inr (console, Some (fname, contents))"
    and "pts = (if closed then map startPosition segs
                else map startPosition segs @ [endPosition (last segs)])"
    and "n = length segs"
    and "pairs = map (\<lambda>i. (i, if closed then (i + 1) mod n else i + 1)) [0..<n]"
  shows "contents =
            file_lines ((''# points: '' @ show_nat (length pts)) # map showV pts)
            @ file_lines ((''# lines: '' @ show_nat n)
                          # map (\<lambda>p. show_nat (fst p) @ '','' @ show_nat (snd p)) pairs)"
proof -
  from writeToFile_written_cases[OF w]
  have "fname = (if filename = [] then prompted else filename)" and "fname \<noteq> []"
    and "closed \<or> segs \<noteq> []" by blast+
  from writeToFile_written_points[OF this assms(2-4), of showV name]
  have "Inr (console, Some (fname, contents)) =
     (Inr (''Writing curve '' @ name @ '' to file '' @ fname @ [newline],
          Some (fname,
            file_lines ((''# points: '' @ show_nat (length pts)) # map showV pts)
            @ file_lines ((''# lines: '' @ show_nat n)
                          # map (\<lambda>p. show_nat (fst p) @ '','' @ show_nat (snd p)) pairs)))
      :: write_error + string \<times> (string \<times> string) option)"
    by (simp only: w)
  then show ?thesis
    by (simp only: sum.inject prod.inject option.inject)
qed

text \<open>
  Claim C1. A file that \<^verbatim>\<open>writeToFile\<close> writes begins with the count line
  \<^verbatim>\<open># points: N\<close> followed by one coordinate line for each of the \<open>N\<close> vertices
  \<open>pts\<close> of the curve in traversal order: the start points of the segments, and for
  an open curve the end point of the last segment once after them. \<open>N\<close> is the
  number of segments for a closed curve and one more for an open curve. Such a file
  is written whenever a file name is known and the curve is closed or has a segment.
\<close>

theorem writeToFile_points_section:
  assumes "pts = (if closed then map startPosition segs
                  else map startPosition segs @ [endPosition (last segs)])"
  shows "length pts = (if closed then length segs else length segs + 1)
    \<and> (writeToFile showV name prompted filename segs closed
           = Inr (console, Some (fname, contents))
        \<longrightarrow> (\<exists>rest. contents =
              file_lines ((''# points: '' @ show_nat (length pts)) # map showV pts) @ rest))
    \<and> ((filename \<noteq> [] \<or> prompted \<noteq> []) \<and> (closed \<or> segs \<noteq> [])
        \<longrightarrow> (\<exists>out rest. writeToFile showV name prompted filename segs closed
              = Inr (out, Some (if filename = [] then prompted else filename,
                  file_lines ((''# points: '' @ show_nat (length pts)) # map showV pts)
                  @ rest))))"
proof (intro conjI impI)
  show "length pts = (if closed then length segs else length segs + 1)"
    using assms by simp
next
  assume "writeToFile showV name prompted filename segs closed
           = Inr (console, Some (fname, contents))"
  from writeToFile_contents[OF this assms refl refl]
  show "\<exists>rest. contents =
              file_lines ((''# points: '' @ show_nat (length pts)) # map showV pts) @ rest"
    by blast
next
  assume "(filename \<noteq> [] \<or> prompted \<noteq> []) \<and> (closed \<or> segs \<noteq> [])"
  then have "(if filename = [] then prompted else filename) \<noteq> []"
    and "closed \<or> segs \<noteq> []" by auto
  from writeToFile_written_points[OF refl this assms refl refl, of showV name]
  show "\<exists>out rest. writeToFile showV name prompted filename segs closed
              = Inr (out, Some (if filename = [] then prompted else filename,
                  file_lines ((''# points: '' @ show_nat (length pts)) # map showV pts)
                  @ rest))"
    by blast
qed

text \<open>An open curve of two segments: three points are written.\<close>

theorem writeToFile_points_section_witness:
  "writeToFile show_nat ''curve'' [] ''open.txt''
     [\<lparr>face = (0::nat), startPosition = (1::nat), endPosition = 2\<rparr>,
      \<lparr>face = 0, startPosition = 2, endPosition = 3\<rparr>] False =
   Inr (''Writing curve curve to file open.txt'' @ [newline],
        Some (''open.txt'',
              file_lines [''# points: 3'', ''1'', ''2'', ''3'']
              @ file_lines [''# lines: 2'', ''0,1'', ''1,2'']))
   \<and> (\<exists>rest. file_lines [''# points: 3'', ''1'', ''2'', ''3'']
              @ file_lines [''# lines: 2'', ''0,1'', ''1,2'']
         = file_lines ((''# points: '' @ show_nat (length [1, 2, 3::nat]))
                       # map show_nat [1, 2, 3]) @ rest)"
proof -
  have pts: "[1, 2, 3::nat] =
      (if False then map startPosition
           [\<lparr>face = (0::nat), startPosition = (1::nat), endPosition = 2\<rparr>,
            \<lparr>face = 0, startPosition = 2, endPosition = 3\<rparr>]
       else map startPosition
           [\<lparr>face = (0::nat), startPosition = (1::nat), endPosition = 2\<rparr>,
            \<lparr>face = 0, startPosition = 2, endPosition = 3\<rparr>]
         @ [endPosition (last
           [\<lparr>face = (0::nat), startPosition = (1::nat), endPosition = 2\<rparr>,
            \<lparr>face = 0, startPosition = 2, endPosition = 3\<rparr>])])"
    by simp
  have run: "writeToFile show_nat ''curve'' [] ''open.txt''
     [\<lparr>face = (0::nat), startPosition = (1::nat), endPosition = 2\<rparr>,
      \<lparr>face = 0, startPosition = 2, endPosition = 3\<rparr>] False =
   Inr (''Writing curve curve to file open.txt'' @ [newline],
        Some (''open.txt'',
              file_lines [''# points: 3'', ''1'', ''2'', ''3'']
              @ file_lines [''# lines: 2'', ''0,1'', ''1,2'']))"
    by (simp add: writeToFile_def Let_def endl_def file_lines_def show_nat.simps digit_char_def)
  from writeToFile_points_section[OF pts, THEN conjunct2, THEN conjunct1, rule_format, OF run]
  have "\<exists>rest. file_lines [''# points: 3'', ''1'', ''2'', ''3'']
              @ file_lines [''# lines: 2'', ''0,1'', ''1,2'']
         = file_lines ((''# points: '' @ show_nat (length [1, 2, 3::nat]))
                       # map show_nat [1, 2, 3]) @ rest" .
  with run show ?thesis by (rule conjI)
qed

text \<open>
  Claim C2. After the points section the file holds the count line \<^verbatim>\<open># lines: M\<close>,
  where \<open>M\<close> is the number of segments, followed by one line \<^verbatim>\<open>i,j\<close> per segment
  with zero-based indices: the pairs \<open>(i, (i + 1) mod M)\<close> for a closed curve and
  \<open>(i, i + 1)\<close> for an open one. A closed curve of three segments has the pairs
  \<open>(0, 1)\<close>, \<open>(1, 2)\<close>, \<open>(2, 0)\<close>.
\<close>

theorem writeToFile_lines_section:
  assumes "pts = (if closed then map startPosition segs
                  else map startPosition segs @ [endPosition (last segs)])"
    and "n = length segs"
    and "pairs = map (\<lambda>i. (i, if closed then (i + 1) mod n else i + 1)) [0..<n]"
  shows "(writeToFile showV name prompted filename segs closed
           = Inr (console, Some (fname, contents))
        \<longrightarrow> contents =
              file_lines ((''# points: '' @ show_nat (length pts)) # map showV pts)
              @ file_lines ((''# lines: '' @ show_nat n)
                            # map (\<lambda>p. show_nat (fst p) @ '','' @ show_nat (snd p)) pairs))
    \<and> ((filename \<noteq> [] \<or> prompted \<noteq> []) \<and> (closed \<or> segs \<noteq> [])
        \<longrightarrow> (\<exists>out. writeToFile showV name prompted filename segs closed
              = Inr (out, Some (if filename = [] then prompted else filename,
                  file_lines ((''# points: '' @ show_nat (length pts)) # map showV pts)
                  @ file_lines ((''# lines: '' @ show_nat n)
                            # map (\<lambda>p. show_nat (fst p) @ '','' @ show_nat (snd p)) pairs)))))
    \<and> length pairs = n
    \<and> (closed \<and> n = 3 \<longrightarrow> pairs = [(0, 1), (1, 2), (2, 0)])"
proof (intro conjI impI)
  assume "writeToFile showV name prompted filename segs closed
           = Inr (console, Some (fname, contents))"
  from writeToFile_contents[OF this assms]
  show "contents =
              file_lines ((''# points: '' @ show_nat (length pts)) # map showV pts)
              @ file_lines ((''# lines: '' @ show_nat n)
                            # map (\<lambda>p. show_nat (fst p) @ '','' @ show_nat (snd p)) pairs)" .
next
  assume "(filename \<noteq> [] \<or> prompted \<noteq> []) \<and> (closed \<or> segs \<noteq> [])"
  then have "(if filename = [] then prompted else filename) \<noteq> []"
    and "closed \<or> segs \<noteq> []" by auto
  from writeToFile_written_points[OF refl this assms, of showV name]
  show "\<exists>out. writeToFile showV name prompted filename segs closed
              = Inr (out, Some (if filename = [] then prompted else filename,
                  file_lines ((''# points: '' @ show_nat (length pts)) # map showV pts)
                  @ file_lines ((''# lines: '' @ show_nat n)
                            # map (\<lambda>p. show_nat (fst p) @ '','' @ show_nat (snd p)) pairs)))"
    by blast
next
  show "length pairs = n" using assms(3) by simp
next
  assume "closed \<and> n = 3"
  moreover have "[0..<3] = [0, 1, 2::nat]" by (simp add: upt_rec)
  ultimately show "pairs = [(0, 1), (1, 2), (2, 0)]"
    using assms(3) by simp
qed

text \<open>The closed triangle: its file ends with the lines 0,1 then 1,2 then 2,0.\<close>

theorem writeToFile_lines_section_witness:
  "writeToFile show_nat ''tri'' ''tri.txt'' []
     [\<lparr>face = (0::nat), startPosition = (1::nat), endPosition = 2\<rparr>,
      \<lparr>face = 0, startPosition = 2, endPosition = 3\<rparr>,
      \<lparr>face = 0, startPosition = 3, endPosition = 1\<rparr>] True =
   Inr (''Writing curve tri to file tri.txt'' @ [newline],
        Some (''tri.txt'',
              file_lines [''# points: 3'', ''1'', ''2'', ''3'']
              @ file_lines [''# lines: 3'', ''0,1'', ''1,2'', ''2,0'']))
   \<and> file_lines [''# points: 3'', ''1'', ''2'', ''3'']
       @ file_lines [''# lines: 3'', ''0,1'', ''1,2'', ''2,0'']
     = file_lines ((''# points: '' @ show_nat (length [1, 2, 3::nat])) # map show_nat [1, 2, 3])
       @ file_lines ((''# lines: '' @ show_nat 3)
                     # map (\<lambda>p. show_nat (fst p) @ '','' @ show_nat (snd p))
                         [(0, 1), (1, 2), (2, 0)])"
proof -
  have pts: "[1, 2, 3::nat] =
      (if True then map startPosition
           [\<lparr>face = (0::nat), startPosition = (1::nat), endPosition = 2\<rparr>,
            \<lparr>face = 0, startPosition = 2, endPosition = 3\<rparr>,
            \<lparr>face = 0, startPosition = 3, endPosition = 1\<rparr>]
       else map startPosition
           [\<lparr>face = (0::nat), startPosition = (1::nat), endPosition = 2\<rparr>,
            \<lparr>face = 0, startPosition = 2, endPosition = 3\<rparr>,
            \<lparr>face = 0, startPosition = 3, endPosition = 1\<rparr>]
         @ [endPosition (last
           [\<lparr>face = (0::nat), startPosition = (1::nat), endPosition = 2\<rparr>,
            \<lparr>face = 0, startPosition = 2, endPosition = 3\<rparr>,
            \<lparr>face = 0, startPosition = 3, endPosition = 1\<rparr>])])"
    by simp
  have n: "(3::nat) = length
     [\<lparr>face = (0::nat), startPosition = (1::nat), endPosition = 2\<rparr>,
      \<lparr>face = 0, startPosition = 2, endPosition = 3\<rparr>,
      \<lparr>face = 0, startPosition = 3, endPosition = 1\<rparr>]"
    by simp
  have "[0..<3] = [0, 1, 2::nat]" by (simp add: upt_rec)
  then have pairs: "[(0, 1), (1, 2), (2, 0::nat)] =
      map (\<lambda>i. (i, if True then (i + 1) mod 3 else i + 1)) [0..<3]"
    by simp
  have run: "writeToFile show_nat ''tri'' ''tri.txt'' []
     [\<lparr>face = (0::nat), startPosition = (1::nat), endPosition = 2\<rparr>,
      \<lparr>face = 0, startPosition = 2, endPosition = 3\<rparr>,
      \<lparr>face = 0, startPosition = 3, endPosition = 1\<rparr>] True =
   Inr (''Writing curve tri to file tri.txt'' @ [newline],
        Some (''tri.txt'',
              file_lines [''# points: 3'', ''1'', ''2'', ''3'']
              @ file_lines [''# lines: 3'', ''0,1'', ''1,2'', ''2,0'']))"
    by (simp add: writeToFile_def Let_def endl_def file_lines_def show_nat.simps digit_char_def)
  from writeToFile_lines_section[OF pts n pairs, THEN conjunct1, rule_format, OF run]
  have "file_lines [''# points: 3'', ''1'', ''2'', ''3'']
       @ file_lines [''# lines: 3'', ''0,1'', ''1,2'', ''2,0'']
     = file_lines ((''# points: '' @ show_nat (length [1, 2, 3::nat])) # map show_nat [1, 2, 3])
       @ file_lines ((''# lines: '' @ show_nat 3)
                     # map (\<lambda>p. show_nat (fst p) @ '','' @ show_nat (snd p))
                         [(0, 1), (1, 2), (2, 0)])" .
  with run show ?thesis by (rule conjI)
qed

text \<open>
  Claim C9. On a curve that is not closed, \<^verbatim>\<open>writeToFile\<close> reads the last element
  of the segment sequence: with at least one segment the end point of the last
  segment is the coordinate line written after the start points, and on the empty
  curve the open branch calls \<^verbatim>\<open>back()\<close> on an empty sequence. That is the only
  way the function reaches the undefined call.
\<close>

theorem writeToFile_back_of_empty:
  assumes "filename \<noteq> [] \<or> prompted \<noteq> []"
  shows "(writeToFile showV name prompted filename segs closed = Inl BackOfEmptyVector)
           = (\<not> closed \<and> segs = [])
       \<and> (\<not> closed \<and> segs \<noteq> [] \<longrightarrow>
            (\<exists>console fname rest.
               writeToFile showV name prompted filename segs closed =
                 Inr (console,
                      Some (fname,
                            file_lines ((''# points: '' @ show_nat (length segs + 1))
                                        # map (\<lambda>s. showV (startPosition s)) segs)
                            @ showV (endPosition (last segs)) @ [newline] @ rest))))"
proof -
  define fname where "fname = (if filename = [] then prompted else filename)"
  have ne: "fname \<noteq> []" using assms by (auto simp: fname_def)
  have empty: "writeToFile showV name prompted filename [] False = Inl BackOfEmptyVector"
    using fname_def ne by (rule writeToFile_empty_open)
  have ok: "closed \<or> segs \<noteq> [] \<Longrightarrow>
      writeToFile showV name prompted filename segs closed \<noteq> Inl BackOfEmptyVector"
    using writeToFile_written[OF fname_def ne, of closed segs showV name] by simp
  have acc: "\<not> closed \<and> segs \<noteq> [] \<longrightarrow>
            (\<exists>console fname rest.
               writeToFile showV name prompted filename segs closed =
                 Inr (console,
                      Some (fname,
                            file_lines ((''# points: '' @ show_nat (length segs + 1))
                                        # map (\<lambda>s. showV (startPosition s)) segs)
                            @ showV (endPosition (last segs)) @ [newline] @ rest)))"
    using writeToFile_written[OF fname_def ne, of closed segs showV name]
    by (auto simp: file_lines_Cons file_lines_append file_lines_Nil)
  have "(writeToFile showV name prompted filename segs closed = Inl BackOfEmptyVector)
           = (\<not> closed \<and> segs = [])"
    using empty ok by (cases "closed \<or> segs \<noteq> []") auto
  with acc show ?thesis by (rule conjI[rotated])
qed

text \<open>The empty open curve, and an open curve of one segment.\<close>

theorem writeToFile_back_of_empty_witness:
  "''empty.txt'' \<noteq> ([] :: string)
   \<and> writeToFile show_nat ''curve'' [] ''empty.txt''
       ([] :: (nat, nat) CurveSegment list) False = Inl BackOfEmptyVector
   \<and> writeToFile show_nat ''curve'' [] ''one.txt''
       [\<lparr>face = (0::nat), startPosition = (1::nat), endPosition = 2\<rparr>] False =
     Inr (''Writing curve curve to file one.txt'' @ [newline],
          Some (''one.txt'', file_lines [''# points: 2'', ''1'', ''2'', ''# lines: 1'', ''0,1'']))"
  using writeToFile_back_of_empty[of "''empty.txt''" "[]" show_nat "''curve''"
      "[] :: (nat, nat) CurveSegment list" False]
    writeToFile_back_of_empty[of "''one.txt''" "[]" show_nat "''curve''"
      "[\<lparr>face = (0::nat), startPosition = (1::nat), endPosition = 2\<rparr>]" False]
  by (simp add: writeToFile_def Let_def endl_def file_lines_def show_nat.simps digit_char_def)


section \<open>Properties of the editing callback\<close>

lemma curve_userEditCallback_done: "curve (userEditCallback_done io s) = curve s"
  by (simp add: userEditCallback_done_def)

lemma userEditCallback_pick_null:
  "pickedFace io = None \<Longrightarrow> userEditCallback_pick ops io s = s"
  by (simp add: userEditCallback_pick_def)

lemma userEditCallback_pick_no_ctrl:
  "\<not> keyCtrl io \<Longrightarrow> userEditCallback_pick ops io s = s"
  by (simp add: userEditCallback_pick_def)

text \<open>The buttons do not look at the control key.\<close>

lemma userEditCallback_buttons_keyCtrl:
  "userEditCallback_remove ops (io\<lparr>keyCtrl := b\<rparr>) = userEditCallback_remove ops io"
  "userEditCallback_close ops (io\<lparr>keyCtrl := b\<rparr>) = userEditCallback_close ops io"
  "userEditCallback_clear ops (io\<lparr>keyCtrl := b\<rparr>) = userEditCallback_clear ops io"
  "userEditCallback_done (io\<lparr>keyCtrl := b\<rparr>) = userEditCallback_done io"
  by (simp_all add: fun_eq_iff userEditCallback_remove_def userEditCallback_close_def
      userEditCallback_clear_def userEditCallback_done_def)

lemma userEditCallback_no_buttons:
  assumes "\<not> removeLastButton io" and "\<not> closeCurveButton io" and "\<not> clearButton io"
    and "\<not> doneButton io"
  shows "userEditCallback ops io s = userEditCallback_pick ops io s"
  using assms
  by (simp add: userEditCallback_def userEditCallback_remove_def userEditCallback_close_def
      userEditCallback_clear_def userEditCallback_done_def)

text \<open>
  Claim C8. When the picked face is the null handle, the mouse selection block
  changes nothing, whatever the curve's member functions do: \<^verbatim>\<open>tryExtendBack\<close> is
  not called. The callback then acts as in a frame without a click, and in a frame
  where no button is pressed it leaves the whole state, the curve included, as it
  was.
\<close>

theorem userEditCallback_null_pick:
  assumes "pickedFace io = None"
  shows "userEditCallback_pick ops io s = s
    \<and> userEditCallback ops io s = userEditCallback ops (io\<lparr>keyCtrl := False\<rparr>) s
    \<and> (\<not> removeLastButton io \<and> \<not> closeCurveButton io \<and> \<not> clearButton io \<and> \<not> doneButton io
         \<longrightarrow> userEditCallback ops io s = s)"
proof -
  have pick: "userEditCallback_pick ops io s = s"
    using assms by (rule userEditCallback_pick_null)
  have "userEditCallback_pick ops (io\<lparr>keyCtrl := False\<rparr>) s = s"
    by (rule userEditCallback_pick_no_ctrl) simp
  then have same: "userEditCallback ops io s = userEditCallback ops (io\<lparr>keyCtrl := False\<rparr>) s"
    by (simp add: userEditCallback_def pick userEditCallback_buttons_keyCtrl)
  have "userEditCallback ops io s = s"
    if "\<not> removeLastButton io \<and> \<not> closeCurveButton io \<and> \<not> clearButton io \<and> \<not> doneButton io"
    using that by (simp add: userEditCallback_no_buttons pick)
  with pick same show ?thesis by blast
qed

text \<open>
  A control-click that hits no face, with a \<^verbatim>\<open>tryExtendBack\<close> that would change
  every curve it is given.
\<close>

theorem userEditCallback_null_pick_witness:
  "pickedFace \<lparr>keyCtrl = True, wantCaptureMouse = False, mouseDown = True,
       pickedFace = (None :: nat option), pickedCoord = (7::nat), removeLastButton = False,
       closeCurveButton = False, clearButton = False, doneButton = False\<rparr> = None
   \<and> userEditCallback
       \<lparr>tryExtendBack = (\<lambda>f b c. Suc (f + b + c)), removeLastEndpoint = (\<lambda>c. c - 1),
        isClosed = (\<lambda>c. False), closeCurve = (\<lambda>c. (Inr c :: unit + nat)), clearCurve = (\<lambda>c. 0)\<rparr>
       \<lparr>keyCtrl = True, wantCaptureMouse = False, mouseDown = True,
        pickedFace = (None :: nat option), pickedCoord = (7::nat), removeLastButton = False,
        closeCurveButton = False, clearButton = False, doneButton = False\<rparr>
       \<lparr>enabled = True, bufferStale = False, curve = (5::nat), alwaysEvaluatePick = True,
        focusedPopupUI = True, currentContext = Some 1, liveContexts = [1],
        reportedErrors = []\<rparr>
     = \<lparr>enabled = True, bufferStale = False, curve = 5, alwaysEvaluatePick = True,
        focusedPopupUI = True, currentContext = Some 1, liveContexts = [1],
        reportedErrors = []\<rparr>"
  using userEditCallback_null_pick[of
      "\<lparr>keyCtrl = True, wantCaptureMouse = False, mouseDown = True,
        pickedFace = (None :: nat option), pickedCoord = (7::nat), removeLastButton = False,
        closeCurveButton = False, clearButton = False, doneButton = False\<rparr>"
      "\<lparr>tryExtendBack = (\<lambda>f b c. Suc (f + b + c)), removeLastEndpoint = (\<lambda>c. c - 1),
        isClosed = (\<lambda>c. False), closeCurve = (\<lambda>c. (Inr c :: unit + nat)), clearCurve = (\<lambda>c. 0)\<rparr>"
      "\<lparr>enabled = True, bufferStale = False, curve = (5::nat), alwaysEvaluatePick = True,
        focusedPopupUI = True, currentContext = Some 1, liveContexts = [1],
        reportedErrors = []\<rparr>"]
  by (simp add: userEditCallback_def userEditCallback_pick_def userEditCallback_remove_def
      userEditCallback_close_def userEditCallback_clear_def userEditCallback_done_def)

section \<open>Properties of the modal editing loop\<close>

lemma fold_max_ge: "a \<le> fold max xs (a::nat)"
proof (induction xs arbitrary: a)
  case Nil
  show ?case by simp
next
  case (Cons x xs)
  have "a \<le> max x a" by simp
  also have "\<dots> \<le> fold max xs (max x a)" by (rule Cons.IH)
  finally show ?case by simp
qed

lemma fold_max_member: "x \<in> set xs \<Longrightarrow> x \<le> fold max xs (a::nat)"
proof (induction xs arbitrary: a)
  case Nil
  then show ?case by simp
next
  case (Cons y ys)
  show ?case
  proof (cases "x = y")
    case True
    have "x \<le> max y a" using True by simp
    also have "\<dots> \<le> fold max ys (max y a)" by (rule fold_max_ge)
    finally show ?thesis by simp
  next
    case False
    with Cons.prems have "x \<in> set ys" by simp
    then show ?thesis by (simp add: Cons.IH)
  qed
qed

text \<open>The context that \<^verbatim>\<open>CreateContext\<close> allocates is not one of the live ones.\<close>

lemma freshContext_not_live: "freshContext live \<notin> set live"
proof
  assume "freshContext live \<in> set live"
  then have "freshContext live \<le> fold max live 0" by (rule fold_max_member)
  then show False by (simp add: freshContext_def)
qed

text \<open>A loop whose iterations never write \<^verbatim>\<open>enabled\<close> returns it unchanged.\<close>

lemma userEdit_loop_enabled:
  assumes "userEdit_loop mainLoopIteration s = Some t"
    and "\<forall>u. enabled (mainLoopIteration u) = enabled u"
  shows "enabled t = enabled s"
proof -
  have "(\<forall>u. enabled (mainLoopIteration u) = enabled u) \<longrightarrow> enabled t = enabled s"
    using assms(1)
  proof (induction mainLoopIteration s t rule: userEdit_loop.raw_induct[rotated 1, consumes 1])
    case (1 loop m s t)
    show ?case
    proof (cases "focusedPopupUI s")
      case True
      with 1 show ?thesis by auto
    next
      case False
      with 1 show ?thesis by simp
    qed
  qed
  with assms(2) show ?thesis by simp
qed

text \<open>
  Claim C10. When a call of \<^verbatim>\<open>userEdit\<close> returns, \<^verbatim>\<open>pick::alwaysEvaluatePick\<close> has
  the value it had before the call and ImGui's current context is the one that was
  current before the call. The value \<^verbatim>\<open>enabled\<close> had before the call plays no part:
  it is overwritten with true at entry and never written back, so it is true on
  return when neither \<^verbatim>\<open>initializeImGUIContext\<close> nor \<^verbatim>\<open>mainLoopIteration\<close> writes
  it. The assumptions: \<^verbatim>\<open>initializeImGUIContext\<close> does not write
  \<^verbatim>\<open>pick::alwaysEvaluatePick\<close>, and the context that is current at entry, if any,
  is a live one.
\<close>

theorem userEdit_restores:
  assumes returns: "userEdit initializeImGUIContext mainLoopIteration s = Some s'"
    and init_pick: "\<forall>u. alwaysEvaluatePick (initializeImGUIContext u) = alwaysEvaluatePick u"
    and live: "\<forall>ctx. currentContext s = Some ctx \<longrightarrow> ctx \<in> set (liveContexts s)"
  shows "alwaysEvaluatePick s' = alwaysEvaluatePick s
    \<and> currentContext s' = currentContext s
    \<and> userEdit initializeImGUIContext mainLoopIteration (s\<lparr>enabled := b\<rparr>) = Some s'
    \<and> ((\<forall>u. enabled (initializeImGUIContext u) = enabled u)
         \<and> (\<forall>u. enabled (mainLoopIteration u) = enabled u) \<longrightarrow> enabled s')"
proof -
  define new where "new = freshContext (liveContexts s)"
  have fresh: "currentContext s \<noteq> Some new"
    using live freshContext_not_live[of "liveContexts s"] by (auto simp: new_def)
  define s6 where "s6 = (initializeImGUIContext
      (ImGui_SetCurrentContext (Some new) (snd (ImGui_CreateContext (s\<lparr>enabled := True\<rparr>)))))
      \<lparr>alwaysEvaluatePick := True, focusedPopupUI := True\<rparr>"
  define old where "old = alwaysEvaluatePick (initializeImGUIContext
      (ImGui_SetCurrentContext (Some new) (snd (ImGui_CreateContext (s\<lparr>enabled := True\<rparr>)))))"
  have new_eq: "fst (ImGui_CreateContext (s\<lparr>enabled := True\<rparr>)) = new"
    by (simp add: ImGui_CreateContext_def Let_def new_def)
  have unfolded: "userEdit initializeImGUIContext mainLoopIteration s =
      (case userEdit_loop mainLoopIteration s6 of
         None \<Rightarrow> None
       | Some s7 \<Rightarrow>
           Some (ImGui_DestroyContext new
                   (ImGui_SetCurrentContext (currentContext s)
                      (s7\<lparr>alwaysEvaluatePick := old\<rparr>))))"
    using new_eq
    by (simp add: userEdit_def Let_def split_beta s6_def old_def cong: option.case_cong)
  from returns unfolded obtain s7 where loop: "userEdit_loop mainLoopIteration s6 = Some s7"
    and s': "s' = ImGui_DestroyContext new
                   (ImGui_SetCurrentContext (currentContext s) (s7\<lparr>alwaysEvaluatePick := old\<rparr>))"
    by (auto split: option.splits)
  have old_eq: "old = alwaysEvaluatePick s"
    using init_pick
    by (simp add: old_def ImGui_SetCurrentContext_def ImGui_CreateContext_def Let_def)
  have pick: "alwaysEvaluatePick s' = alwaysEvaluatePick s"
    by (simp add: s' old_eq ImGui_DestroyContext_def ImGui_SetCurrentContext_def Let_def)
  have ctx: "currentContext s' = currentContext s"
    using fresh by (simp add: s' ImGui_DestroyContext_def ImGui_SetCurrentContext_def Let_def)
  have same: "userEdit initializeImGUIContext mainLoopIteration (s\<lparr>enabled := b\<rparr>) = Some s'"
    using returns by (simp add: userEdit_def)
  have en: "enabled s'"
    if i: "\<forall>u. enabled (initializeImGUIContext u) = enabled u"
      and m: "\<forall>u. enabled (mainLoopIteration u) = enabled u"
  proof -
    have "enabled s7 = enabled s6" using loop m by (rule userEdit_loop_enabled)
    also have "enabled s6"
      using i by (simp add: s6_def ImGui_SetCurrentContext_def ImGui_CreateContext_def Let_def)
    finally have "enabled s7" by simp
    then show ?thesis
      by (simp add: s' ImGui_DestroyContext_def ImGui_SetCurrentContext_def Let_def)
  qed
  from pick ctx same en show ?thesis by blast
qed

text \<open>
  A quantity that is disabled, edited in a loop whose first iteration presses
  \<^verbatim>\<open>Done\<close>: the flag and the context are back, \<^verbatim>\<open>enabled\<close> is not.
\<close>

theorem userEdit_restores_witness:
  "userEdit id
      (userEditCallback_done
        \<lparr>keyCtrl = False, wantCaptureMouse = False, mouseDown = False,
         pickedFace = (None :: nat option), pickedCoord = (0::nat), removeLastButton = False,
         closeCurveButton = False, clearButton = False, doneButton = True\<rparr>)
      \<lparr>enabled = False, bufferStale = False, curve = (0::nat), alwaysEvaluatePick = False,
       focusedPopupUI = False, currentContext = Some 1, liveContexts = [1],
       reportedErrors = []\<rparr>
    = Some \<lparr>enabled = True, bufferStale = False, curve = 0, alwaysEvaluatePick = False,
       focusedPopupUI = False, currentContext = Some 1, liveContexts = [1],
       reportedErrors = []\<rparr>
   \<and> alwaysEvaluatePick
       \<lparr>enabled = True, bufferStale = False, curve = (0::nat), alwaysEvaluatePick = False,
        focusedPopupUI = False, currentContext = Some 1, liveContexts = [1],
        reportedErrors = []\<rparr>
     = alwaysEvaluatePick
       \<lparr>enabled = False, bufferStale = False, curve = (0::nat), alwaysEvaluatePick = False,
        focusedPopupUI = False, currentContext = Some 1, liveContexts = [1],
        reportedErrors = []\<rparr>
   \<and> currentContext
       \<lparr>enabled = True, bufferStale = False, curve = (0::nat), alwaysEvaluatePick = False,
        focusedPopupUI = False, currentContext = Some 1, liveContexts = [1],
        reportedErrors = []\<rparr>
     = currentContext
       \<lparr>enabled = False, bufferStale = False, curve = (0::nat), alwaysEvaluatePick = False,
        focusedPopupUI = False, currentContext = Some 1, liveContexts = [1],
        reportedErrors = []\<rparr>"
proof -
  let ?io = "\<lparr>keyCtrl = False, wantCaptureMouse = False, mouseDown = False,
         pickedFace = (None :: nat option), pickedCoord = (0::nat), removeLastButton = False,
         closeCurveButton = False, clearButton = False, doneButton = True\<rparr>"
  let ?s = "\<lparr>enabled = False, bufferStale = False, curve = (0::nat), alwaysEvaluatePick = False,
       focusedPopupUI = False, currentContext = Some 1, liveContexts = [1],
       reportedErrors = []\<rparr>"
  let ?s' = "\<lparr>enabled = True, bufferStale = False, curve = (0::nat), alwaysEvaluatePick = False,
       focusedPopupUI = False, currentContext = Some 1, liveContexts = [1],
       reportedErrors = []\<rparr>"
  have run: "userEdit id (userEditCallback_done ?io) ?s = Some ?s'"
    by (simp add: userEdit_def userEdit_loop.simps userEditCallback_done_def
        ImGui_CreateContext_def ImGui_SetCurrentContext_def ImGui_DestroyContext_def
        freshContext_def Let_def)
  have init: "\<forall>u :: nat program_state. alwaysEvaluatePick (id u) = alwaysEvaluatePick u"
    by simp
  have live: "\<forall>ctx. currentContext ?s = Some ctx \<longrightarrow> ctx \<in> set (liveContexts ?s)"
    by simp
  from userEdit_restores[OF run init live]
  have "alwaysEvaluatePick ?s' = alwaysEvaluatePick ?s \<and> currentContext ?s' = currentContext ?s"
    by blast
  with run show ?thesis by (rule conjI)
qed


section \<open>Properties of the curve editor\<close>

text \<open>
  The empty curve satisfies the representation invariant and the four editing
  operations keep it.
\<close>

lemma curve_wf_empty:
  "curve_wf \<lparr>segmentStore = [], closedFlag = False, pendingAnchor = None,
         firstStartFace = None\<rparr>"
  by (simp add: curve_wf_def)

lemma curve_wf_tryExtendBack:
  "curve_wf c \<Longrightarrow> spec_tryExtendBack adjacent crossing f p c = Inr c' \<Longrightarrow> curve_wf c'"
  by (auto simp: curve_wf_def spec_tryExtendBack_def spec_emit_def spec_backEndpoint_def
      split: if_splits option.splits)

lemma curve_wf_removeLastEndpoint: "curve_wf c \<Longrightarrow> curve_wf (spec_removeLastEndpoint c)"
  by (auto simp: curve_wf_def spec_removeLastEndpoint_def)

lemma curve_wf_closeCurve: "curve_wf c \<Longrightarrow> spec_closeCurve c = Inr c' \<Longrightarrow> curve_wf c'"
  by (cases "pendingAnchor c") (auto simp: curve_wf_def spec_closeCurve_def split: if_splits)

lemma curve_wf_clearCurve: "curve_wf (spec_clearCurve c)"
  by (simp add: curve_wf_def spec_clearCurve_def)

text \<open>
  The face kept for the first start point is the face of the first pick: recording
  the anchor sets it, and every later call of \<^verbatim>\<open>tryExtendBack\<close> leaves it alone.
\<close>

lemma spec_tryExtendBack_first_pick:
  assumes "spec_tryExtendBack adjacent crossing f p c = Inr c'"
    and "\<not> closedFlag c" and "spec_backEndpoint c = None"
  shows "pendingAnchor c' = Some (f, p) \<and> firstStartFace c' = Some f"
  using assms by (auto simp: spec_tryExtendBack_def)

lemma spec_tryExtendBack_later_pick:
  assumes "spec_tryExtendBack adjacent crossing f p c = Inr c'"
    and "spec_backEndpoint c \<noteq> None"
  shows "firstStartFace c' = firstStartFace c"
  using assms
  by (auto simp: spec_tryExtendBack_def spec_emit_def split: if_splits)

text \<open>The face of the last segment is the face of the pick that ended it.\<close>

lemma spec_tryExtendBack_last_face:
  assumes "spec_tryExtendBack adjacent crossing f p c = Inr c'"
    and "\<not> closedFlag c" and "spec_backEndpoint c \<noteq> None"
  shows "spec_backEndpoint c' = Some (f, p)"
  using assms
  by (auto simp: spec_tryExtendBack_def spec_emit_def spec_backEndpoint_def split: if_splits)

text \<open>An open curve whose two end points are in different faces is not closed.\<close>

lemma spec_closeCurve_different_faces:
  "firstStartFace c \<noteq> Some (face (last (segmentStore c))) \<Longrightarrow>
   spec_closeCurve c = Inl InvalidClosure"
  by (simp add: spec_closeCurve_def)

text \<open>
  Claim C4. On an open curve with at least one segment whose first start point and
  last end point are in a common face (the face kept for the first start point is
  the face of the last segment, which is the face of the last end point),
  \<^verbatim>\<open>closeCurve\<close> succeeds, appends the closing segment from the last end point to
  the first start point, and \<^verbatim>\<open>isClosed\<close> holds of the result; the \<^verbatim>\<open>Close curve\<close>
  button of the callback stores that curve. On a curve that is already closed
  \<^verbatim>\<open>closeCurve\<close> fails with \<open>InvalidClosure\<close>, and the button, for any
  implementation of the curve, reports that the curve is already closed and leaves
  the curve, hence its segment count, unchanged.
\<close>

theorem closeCurve_then_closed:
  "(curve_state_of c = Open \<and> segmentStore c \<noteq> []
      \<and> firstStartFace c = Some (face (last (segmentStore c)))
     \<longrightarrow> (\<exists>c'. spec_closeCurve c = Inr c'
            \<and> segmentStore c' =
                segmentStore c @
                [\<lparr>face = face (last (segmentStore c)),
                  startPosition = endPosition (last (segmentStore c)),
                  endPosition = startPosition (hd (segmentStore c))\<rparr>]
            \<and> spec_isClosed c'
            \<and> curve_state_of c' = Closed
            \<and> (closeCurveButton io \<and> curve s = c \<longrightarrow>
                 curve (userEditCallback_close (spec_ops adjacent crossing) io s) = c')))
   \<and> (spec_isClosed d
     \<longrightarrow> spec_closeCurve d = Inl InvalidClosure
        \<and> (closeCurveButton io \<and> isClosed ops (curve t) \<longrightarrow>
             curve (userEditCallback_close ops io t) = curve t
             \<and> reportedErrors (userEditCallback_close ops io t) =
                 reportedErrors t @ [''Curve is already closed.'']))"
  by (auto simp: curve_state_of_def spec_closeCurve_def spec_isClosed_def
      userEditCallback_close_def spec_ops_def polyscope_error_def split: if_splits)

text \<open>
  Three picks in the faces 0, 1 and 0, where the faces 0 and 1 are adjacent, give an
  open curve of two segments whose first start point and last end point are both in
  face 0. It is closed by a third segment in face 0, and closing the result again
  fails. The curve of the first two picks alone starts in face 0 and ends in face 1
  and is not closed.
\<close>

theorem closeCurve_then_closed_witness:
  "tryExtendBack (spec_ops {(0, 1), (1, 0)} {}) 0 12
     (tryExtendBack (spec_ops {(0, 1), (1, 0)} {}) 1 11
        (tryExtendBack (spec_ops {(0, 1), (1, 0)} {}) 0 10
           \<lparr>segmentStore = [], closedFlag = False, pendingAnchor = None,
            firstStartFace = None\<rparr>))
     = \<lparr>segmentStore = [\<lparr>face = (1::nat), startPosition = (10::nat), endPosition = 11\<rparr>,
                         \<lparr>face = 0, startPosition = 11, endPosition = 12\<rparr>],
        closedFlag = False, pendingAnchor = None, firstStartFace = Some 0\<rparr>
   \<and> curve_state_of
       \<lparr>segmentStore = [\<lparr>face = (1::nat), startPosition = (10::nat), endPosition = 11\<rparr>,
                         \<lparr>face = 0, startPosition = 11, endPosition = 12\<rparr>],
        closedFlag = False, pendingAnchor = None, firstStartFace = Some 0\<rparr> = Open
   \<and> spec_closeCurve
       \<lparr>segmentStore = [\<lparr>face = (1::nat), startPosition = (10::nat), endPosition = 11\<rparr>,
                         \<lparr>face = 0, startPosition = 11, endPosition = 12\<rparr>],
        closedFlag = False, pendingAnchor = None, firstStartFace = Some 0\<rparr>
     = Inr \<lparr>segmentStore = [\<lparr>face = 1, startPosition = 10, endPosition = 11\<rparr>,
                             \<lparr>face = 0, startPosition = 11, endPosition = 12\<rparr>,
                             \<lparr>face = 0, startPosition = 12, endPosition = 10\<rparr>],
            closedFlag = True, pendingAnchor = None, firstStartFace = Some 0\<rparr>
   \<and> spec_isClosed
       \<lparr>segmentStore = [\<lparr>face = (1::nat), startPosition = (10::nat), endPosition = 11\<rparr>,
                         \<lparr>face = 0, startPosition = 11, endPosition = 12\<rparr>,
                         \<lparr>face = 0, startPosition = 12, endPosition = 10\<rparr>],
        closedFlag = True, pendingAnchor = None, firstStartFace = Some 0\<rparr>
   \<and> spec_closeCurve
       \<lparr>segmentStore = [\<lparr>face = (1::nat), startPosition = (10::nat), endPosition = 11\<rparr>,
                         \<lparr>face = 0, startPosition = 11, endPosition = 12\<rparr>,
                         \<lparr>face = 0, startPosition = 12, endPosition = 10\<rparr>],
        closedFlag = True, pendingAnchor = None, firstStartFace = Some 0\<rparr> = Inl InvalidClosure
   \<and> spec_closeCurve
       \<lparr>segmentStore = [\<lparr>face = (1::nat), startPosition = (10::nat), endPosition = 11\<rparr>],
        closedFlag = False, pendingAnchor = None, firstStartFace = Some 0\<rparr> = Inl InvalidClosure"
proof -
  let ?c = "\<lparr>segmentStore = [\<lparr>face = (1::nat), startPosition = (10::nat), endPosition = 11\<rparr>,
                         \<lparr>face = 0, startPosition = 11, endPosition = 12\<rparr>],
        closedFlag = False, pendingAnchor = None, firstStartFace = Some 0\<rparr>"
  let ?d = "\<lparr>segmentStore = [\<lparr>face = (1::nat), startPosition = (10::nat), endPosition = 11\<rparr>,
                         \<lparr>face = 0, startPosition = 11, endPosition = 12\<rparr>,
                         \<lparr>face = 0, startPosition = 12, endPosition = 10\<rparr>],
        closedFlag = True, pendingAnchor = None, firstStartFace = Some 0\<rparr>"
  have picks: "tryExtendBack (spec_ops {(0, 1), (1, 0)} {}) 0 12
     (tryExtendBack (spec_ops {(0, 1), (1, 0)} {}) 1 11
        (tryExtendBack (spec_ops {(0, 1), (1, 0)} {}) 0 10
           \<lparr>segmentStore = [], closedFlag = False, pendingAnchor = None,
            firstStartFace = None\<rparr>)) = ?c"
    by (simp add: spec_ops_def spec_tryExtendBack_def spec_backEndpoint_def spec_emit_def)
  have state: "curve_state_of ?c = Open"
    by (simp add: curve_state_of_def)
  have hyp: "curve_state_of ?c = Open \<and> segmentStore ?c \<noteq> []
      \<and> firstStartFace ?c = Some (face (last (segmentStore ?c)))"
    by (simp add: curve_state_of_def)
  have closed: "spec_isClosed ?d"
    by (simp add: spec_isClosed_def)
  note inst = closeCurve_then_closed[where c = ?c and d = ?d]
  from inst hyp obtain c' where c': "spec_closeCurve ?c = Inr c'"
    and segs: "segmentStore c' = segmentStore ?c @
                [\<lparr>face = face (last (segmentStore ?c)),
                  startPosition = endPosition (last (segmentStore ?c)),
                  endPosition = startPosition (hd (segmentStore ?c))\<rparr>]"
    by blast
  have "spec_closeCurve ?c = Inr ?d"
    by (simp add: spec_closeCurve_def)
  moreover from inst closed have "spec_closeCurve ?d = Inl InvalidClosure"
    by blast
  moreover have "spec_closeCurve
       \<lparr>segmentStore = [\<lparr>face = (1::nat), startPosition = (10::nat), endPosition = 11\<rparr>],
        closedFlag = False, pendingAnchor = None, firstStartFace = Some 0\<rparr> = Inl InvalidClosure"
    by (simp add: spec_closeCurve_def)
  ultimately show ?thesis
    using picks state closed by blast
qed

text \<open>
  Claim C5, as amended. For a curve with a back endpoint that is not closed, a pick
  in a face that differs from the back endpoint's face and is not adjacent to it
  makes \<^verbatim>\<open>tryExtendBack\<close> fail with \<open>DisconnectedPick\<close>; on a closed curve the same
  call is the silent no-op and reports no error. In both cases the call as the
  callback makes it leaves the curve, and so the length of the segment store, as
  it was.
\<close>

theorem tryExtendBack_nonadjacent:
  assumes "spec_backEndpoint c = Some (backFace, backPoint)"
    and "f \<noteq> backFace" and "(backFace, f) \<notin> adjacent"
  shows "spec_tryExtendBack adjacent crossing f p c =
           (if spec_isClosed c then Inr c else Inl DisconnectedPick)
    \<and> tryExtendBack (spec_ops adjacent crossing) f p c = c
    \<and> length (segmentStore (tryExtendBack (spec_ops adjacent crossing) f p c))
        = length (segmentStore c)"
  using assms by (simp add: spec_tryExtendBack_def spec_ops_def spec_isClosed_def)

text \<open>
  An open curve of one segment in face 0, where only faces 0 and 1 are adjacent,
  and a pick in face 2.
\<close>

theorem tryExtendBack_nonadjacent_witness:
  "spec_backEndpoint
     \<lparr>segmentStore = [\<lparr>face = (0::nat), startPosition = (0::nat), endPosition = 1\<rparr>],
      closedFlag = False, pendingAnchor = None, firstStartFace = Some 0\<rparr> = Some (0, 1)
   \<and> (2::nat) \<noteq> 0 \<and> (0, 2) \<notin> {(0, 1), (1, 0::nat)}
   \<and> spec_tryExtendBack {(0, 1), (1, 0)} {} 2 5
       \<lparr>segmentStore = [\<lparr>face = (0::nat), startPosition = (0::nat), endPosition = 1\<rparr>],
        closedFlag = False, pendingAnchor = None, firstStartFace = Some 0\<rparr> = Inl DisconnectedPick"
  using tryExtendBack_nonadjacent[where
      c = "\<lparr>segmentStore = [\<lparr>face = (0::nat), startPosition = (0::nat), endPosition = 1\<rparr>],
        closedFlag = False, pendingAnchor = None, firstStartFace = Some 0\<rparr>"
      and backFace = 0 and backPoint = 1 and f = 2 and adjacent = "{(0, 1), (1, 0)}"
      and crossing = "{}" and p = 5]
  by (simp add: spec_backEndpoint_def spec_isClosed_def)

text \<open>
  The claim as first stated fails on a closed curve: the curve is not empty, the
  picked face 1 is not adjacent to the back endpoint's face 0, and the call does
  not fail with \<open>DisconnectedPick\<close>.
\<close>

theorem tryExtendBack_nonadjacent_counterexample:
  "spec_backEndpoint
     \<lparr>segmentStore = [\<lparr>face = (0::nat), startPosition = (0::nat), endPosition = 1\<rparr>,
                       \<lparr>face = 0, startPosition = 1, endPosition = 0\<rparr>],
      closedFlag = True, pendingAnchor = None, firstStartFace = Some 0\<rparr> = Some (0, 0)
   \<and> (1::nat) \<noteq> 0 \<and> (0, 1) \<notin> ({} :: (nat \<times> nat) set)
   \<and> spec_tryExtendBack {} {} 1 2
       \<lparr>segmentStore = [\<lparr>face = (0::nat), startPosition = (0::nat), endPosition = 1\<rparr>,
                         \<lparr>face = 0, startPosition = 1, endPosition = 0\<rparr>],
        closedFlag = True, pendingAnchor = None, firstStartFace = Some 0\<rparr> \<noteq> Inl DisconnectedPick"
  by (simp add: spec_backEndpoint_def spec_tryExtendBack_def)

text \<open>Removing as often as there are segments leaves no segment and no flag.\<close>

lemma spec_removeLastEndpoint_segments:
  "(spec_removeLastEndpoint ^^ length (segmentStore c)) c =
     c\<lparr>segmentStore := [], closedFlag := (segmentStore c = [] \<and> closedFlag c),
       firstStartFace := (if segmentStore c = [] then firstStartFace c else None)\<rparr>"
proof (induction "length (segmentStore c)" arbitrary: c)
  case 0
  then show ?case by simp
next
  case (Suc n)
  then have ne: "segmentStore c \<noteq> []" by auto
  define d where "d = spec_removeLastEndpoint c"
  have d: "d = c\<lparr>segmentStore := butlast (segmentStore c), closedFlag := False,
                 firstStartFace :=
                   (if butlast (segmentStore c) = [] then None else firstStartFace c)\<rparr>"
    using ne by (simp add: d_def spec_removeLastEndpoint_def)
  have n: "n = length (segmentStore d)" using Suc(2) by (simp add: d)
  then have "(spec_removeLastEndpoint ^^ length (segmentStore d)) d =
     d\<lparr>segmentStore := [], closedFlag := (segmentStore d = [] \<and> closedFlag d),
       firstStartFace := (if segmentStore d = [] then firstStartFace d else None)\<rparr>"
    by (rule Suc(1))
  moreover have "(spec_removeLastEndpoint ^^ length (segmentStore c)) c =
      (spec_removeLastEndpoint ^^ length (segmentStore d)) d"
    using Suc(2)[symmetric] n[symmetric] by (simp add: funpow_swap1 d_def)
  ultimately show ?case using ne by (simp add: d)
qed

text \<open>
  Claim C6. On a curve with \<open>k\<close> segments, \<open>k\<close> applications of
  \<^verbatim>\<open>removeLastEndpoint\<close>, and one more when an anchor is pending, give an \<open>Empty\<close>
  curve with no segment; on an \<open>Empty\<close> curve the operation changes nothing; and
  its result is never \<open>Closed\<close>.
\<close>

theorem removeLastEndpoint_empties:
  assumes "curve_wf c"
  shows "curve_state_of ((spec_removeLastEndpoint ^^
             (length (segmentStore c) + (if pendingAnchor c = None then 0 else 1))) c) = Empty
    \<and> segmentStore ((spec_removeLastEndpoint ^^
             (length (segmentStore c) + (if pendingAnchor c = None then 0 else 1))) c) = []
    \<and> (curve_state_of c = Empty \<longrightarrow> spec_removeLastEndpoint c = c)
    \<and> curve_state_of (spec_removeLastEndpoint c) \<noteq> Closed"
proof -
  let ?n = "length (segmentStore c) + (if pendingAnchor c = None then 0 else 1)"
  have run: "(spec_removeLastEndpoint ^^ ?n) c =
      c\<lparr>segmentStore := [], closedFlag := False, pendingAnchor := None,
        firstStartFace := (if segmentStore c = [] \<and> pendingAnchor c = None
                           then firstStartFace c else None)\<rparr>"
  proof (cases "pendingAnchor c = None")
    case True
    then show ?thesis
      using assms spec_removeLastEndpoint_segments[of c] by (auto simp: curve_wf_def)
  next
    case False
    with assms have "segmentStore c = []" and "\<not> closedFlag c" by (auto simp: curve_wf_def)
    with False show ?thesis by (auto simp: spec_removeLastEndpoint_def)
  qed
  have noop: "curve_state_of c = Empty \<longrightarrow> spec_removeLastEndpoint c = c"
    by (auto simp: curve_state_of_def spec_removeLastEndpoint_def split: if_splits)
  have never: "curve_state_of (spec_removeLastEndpoint c) \<noteq> Closed"
    using assms
    by (auto simp: curve_state_of_def spec_removeLastEndpoint_def curve_wf_def split: if_splits)
  show ?thesis
    using noop never by (simp add: run curve_state_of_def)
qed

text \<open>
  A closed curve of two segments is emptied by two removals, and a curve that is
  only a pending anchor by one.
\<close>

theorem removeLastEndpoint_empties_witness:
  "curve_wf
     \<lparr>segmentStore = [\<lparr>face = (0::nat), startPosition = (1::nat), endPosition = 2\<rparr>,
                       \<lparr>face = 0, startPosition = 2, endPosition = 1\<rparr>],
      closedFlag = True, pendingAnchor = None, firstStartFace = Some 0\<rparr>
   \<and> spec_removeLastEndpoint (spec_removeLastEndpoint
       \<lparr>segmentStore = [\<lparr>face = (0::nat), startPosition = (1::nat), endPosition = 2\<rparr>,
                         \<lparr>face = 0, startPosition = 2, endPosition = 1\<rparr>],
        closedFlag = True, pendingAnchor = None, firstStartFace = Some 0\<rparr>)
     = \<lparr>segmentStore = [], closedFlag = False, pendingAnchor = None,
         firstStartFace = None\<rparr>
   \<and> curve_state_of (\<lparr>segmentStore = [], closedFlag = False, pendingAnchor = None,
         firstStartFace = None\<rparr>
        :: (nat, nat) MeshEmbeddedCurve) = Empty
   \<and> curve_wf \<lparr>segmentStore = [], closedFlag = False, pendingAnchor = Some (0::nat, 5::nat),
         firstStartFace = Some 0\<rparr>
   \<and> spec_removeLastEndpoint
       \<lparr>segmentStore = [], closedFlag = False, pendingAnchor = Some (0::nat, 5::nat),
         firstStartFace = Some 0\<rparr>
     = \<lparr>segmentStore = [], closedFlag = False, pendingAnchor = None,
         firstStartFace = None\<rparr>"
  using removeLastEndpoint_empties[of
      "\<lparr>segmentStore = [\<lparr>face = (0::nat), startPosition = (1::nat), endPosition = 2\<rparr>,
                        \<lparr>face = 0, startPosition = 2, endPosition = 1\<rparr>],
        closedFlag = True, pendingAnchor = None, firstStartFace = Some 0\<rparr>"]
    removeLastEndpoint_empties[of
      "\<lparr>segmentStore = [], closedFlag = False, pendingAnchor = Some (0::nat, 5::nat),
         firstStartFace = Some 0\<rparr>"]
  by (simp add: curve_wf_def curve_state_of_def spec_removeLastEndpoint_def)

text \<open>
  Claim C7. \<^verbatim>\<open>clearCurve\<close> returns a curve for every curve, and that curve is
  \<open>Empty\<close> and has no segment. A frame of the callback in which \<^verbatim>\<open>Clear\<close> is pressed
  leaves the curve \<open>Empty\<close>, whatever else happens in the frame.
\<close>

theorem clearCurve_empty:
  "curve_state_of (spec_clearCurve c) = Empty
   \<and> segmentStore (spec_clearCurve c) = []
   \<and> (clearButton io \<longrightarrow>
        curve_state_of (curve (userEditCallback (spec_ops adjacent crossing) io s)) = Empty
        \<and> segmentStore (curve (userEditCallback (spec_ops adjacent crossing) io s)) = [])"
  by (simp add: curve_state_of_def spec_clearCurve_def userEditCallback_def
      curve_userEditCallback_done userEditCallback_clear_def spec_ops_def)

text \<open>A frame in which both \<^verbatim>\<open>Close curve\<close> and \<^verbatim>\<open>Clear\<close> are pressed.\<close>

theorem clearCurve_empty_witness:
  "clearButton \<lparr>keyCtrl = False, wantCaptureMouse = False, mouseDown = False,
       pickedFace = (None :: nat option), pickedCoord = (0::nat), removeLastButton = False,
       closeCurveButton = True, clearButton = True, doneButton = False\<rparr>
   \<and> curve (userEditCallback (spec_ops {} {})
       \<lparr>keyCtrl = False, wantCaptureMouse = False, mouseDown = False,
        pickedFace = (None :: nat option), pickedCoord = (0::nat), removeLastButton = False,
        closeCurveButton = True, clearButton = True, doneButton = False\<rparr>
       \<lparr>enabled = True, bufferStale = False,
        curve = \<lparr>segmentStore = [\<lparr>face = (0::nat), startPosition = (1::nat), endPosition = 2\<rparr>],
                 closedFlag = False, pendingAnchor = None, firstStartFace = Some 0\<rparr>,
        alwaysEvaluatePick = True, focusedPopupUI = True, currentContext = Some 1,
        liveContexts = [1], reportedErrors = []\<rparr>)
     = \<lparr>segmentStore = [], closedFlag = False, pendingAnchor = None,
         firstStartFace = None\<rparr>"
  using clearCurve_empty[where
      io = "\<lparr>keyCtrl = False, wantCaptureMouse = False, mouseDown = False,
        pickedFace = (None :: nat option), pickedCoord = (0::nat), removeLastButton = False,
        closeCurveButton = True, clearButton = True, doneButton = False\<rparr>"
      and adjacent = "{}" and crossing = "{}"
      and s = "\<lparr>enabled = True, bufferStale = False,
        curve = \<lparr>segmentStore = [\<lparr>face = (0::nat), startPosition = (1::nat), endPosition = 2\<rparr>],
                 closedFlag = False, pendingAnchor = None, firstStartFace = Some 0\<rparr>,
        alwaysEvaluatePick = True, focusedPopupUI = True, currentContext = Some 1,
        liveContexts = [1], reportedErrors = []\<rparr>"]
  by (simp add: userEditCallback_def userEditCallback_pick_def userEditCallback_remove_def
      userEditCallback_close_def userEditCallback_clear_def userEditCallback_done_def
      spec_ops_def spec_closeCurve_def spec_isClosed_def spec_clearCurve_def)

end
